theory Spec2Isabelle
  imports Main
begin

section \<open>Contact message inbox (the \<open>ContactMessages\<close> component)\<close>

subsection \<open>Data model\<close>

text \<open>
  The \<open>ContactMessage\<close> type of the component. The source's field \<open>id\<close> is named
  \<open>msg_id\<close> here, since \<open>id\<close> is the identity function of HOL. The two optional fields
  (\<open>replied?\<close>, \<open>replyTimestamp?\<close>) are options: \<open>None\<close> is the absent property.
  A JavaScript string is modelled as a \<open>string\<close>, one \<open>char\<close> per code unit.
\<close>

record ContactMessage =
  msg_id :: string
  name :: string
  email :: string
  message :: string
  timestamp :: string
  isRead :: bool
  replied :: "bool option"
  replyTimestamp :: "string option"

text \<open>
  Everything the handlers do to the outside world is recorded, in order, as an effect:
  reads and writes of \<open>localStorage\<close>, \<open>console.error\<close>, the \<open>toast\<close> notifications,
  \<open>window.open\<close>, and (for the bill panel) the calls into the capture, PDF and share
  libraries and the \<open>setIsGeneratingBill\<close> callback of the parent.
\<close>

datatype effect =
    GetItem string
  | SetItem string string
  | ConsoleError string
  | ToastError string
  | ToastSuccess string
  | WindowOpen string string
  | Html2canvas
  | CanvasToBlob
  | CanvasToDataURL
  | PdfAddImage
  | PdfSave string
  | NavigatorShare string string
  | SetIsGeneratingBill bool

datatype js_error = SyntaxError

text \<open>
  The functions of the host platform that the component calls are parameters of the model:
  \<open>JSON.parse\<close> (which throws a \<open>SyntaxError\<close> or returns the decoded value, here a value
  of the state's type \<open>ContactMessage[]\<close>), \<open>JSON.stringify\<close>, \<open>encodeURIComponent\<close>,
  \<open>Date.prototype.toISOString\<close> (on a time in milliseconds) and \<open>String.prototype.trim\<close>.
  Text that decodes to a value of another type (\<open>null\<close>, a number, an object) is not
  covered: the state cell \<open>messages\<close> is typed as a list, and the model has no run for it.
\<close>

record platform =
  JSON_parse :: "string \<Rightarrow> js_error + ContactMessage list"
  JSON_stringify :: "ContactMessage list \<Rightarrow> string"
  encodeURIComponent :: "string \<Rightarrow> string"
  toISOString :: "nat \<Rightarrow> string"
  trim :: "string \<Rightarrow> string"

text \<open>
  The system clock: its current reading in milliseconds, and the time that passes before
  each of the coming readings. A reading can only move the clock forward.
\<close>

type_synonym sysclock = "nat \<times> nat list"

fun new_Date :: "sysclock \<Rightarrow> nat \<times> sysclock" where
  "new_Date (t, []) = (t, (t, []))"
| "new_Date (t, d # ds) = (t + d, (t + d, ds))"

text \<open>
  The state: the seven \<open>useState\<close> cells of the component, followed by the part of the
  world it acts on (the \<open>localStorage\<close> of the page, the clock, the effects so far).
\<close>

record inbox =
  messages :: "ContactMessage list"
  selectedMessage :: "ContactMessage option"
  dialogOpen :: bool
  replyDialogOpen :: bool
  replyText :: string
  isSendingReply :: bool
  loading :: bool
  localStorage :: "string \<rightharpoonup> string"
  clock :: sysclock
  effects :: "effect list"

definition initial_inbox :: "(string \<rightharpoonup> string) \<Rightarrow> sysclock \<Rightarrow> inbox" where
  "initial_inbox store ck =
     \<lparr>messages = [], selectedMessage = None, dialogOpen = False, replyDialogOpen = False,
      replyText = [], isSendingReply = False, loading = True,
      localStorage = store, clock = ck, effects = []\<rparr>"

subsection \<open>Primitive effects\<close>

definition emit :: "effect \<Rightarrow> inbox \<Rightarrow> inbox" where
  "emit e s = s\<lparr>effects := effects s @ [e]\<rparr>"

definition getItem :: "string \<Rightarrow> inbox \<Rightarrow> string option \<times> inbox" where
  "getItem k s = (localStorage s k, emit (GetItem k) s)"

text \<open>\<open>localStorage.setItem\<close> is taken to succeed: the component has no failure path for it.\<close>

definition setItem :: "string \<Rightarrow> string \<Rightarrow> inbox \<Rightarrow> inbox" where
  "setItem k v s = emit (SetItem k v) (s\<lparr>localStorage := (localStorage s)(k \<mapsto> v)\<rparr>)"

definition storageKey :: string where
  "storageKey = ''contactMessages''"

subsection \<open>Handlers\<close>

text \<open>
  \<open>x || d\<close> for a value \<open>x\<close> that is a string or \<open>null\<close>: both \<open>null\<close> and the empty
  string are falsy and give \<open>d\<close>.
\<close>

definition or_else :: "string option \<Rightarrow> string \<Rightarrow> string" where
  "or_else x d = (case x of None \<Rightarrow> d | Some t \<Rightarrow> if t = [] then d else t)"

text \<open>
  \<open>loadMessages\<close> parses \<open>localStorage.getItem('contactMessages') || '[]'\<close>. The \<open>catch\<close>
  branch logs and notifies; the \<open>finally\<close> branch clears \<open>loading\<close> on both paths.
\<close>

definition loadMessages :: "platform \<Rightarrow> inbox \<Rightarrow> inbox" where
  "loadMessages P s =
     (let s1 = s\<lparr>loading := True\<rparr>;
          (item, s2) = getItem storageKey s1
      in case JSON_parse P (or_else item ''[]'') of
           Inr storedMessages \<Rightarrow> (s2\<lparr>messages := storedMessages\<rparr>)\<lparr>loading := False\<rparr>
         | Inl err \<Rightarrow>
             (emit (ToastError ''Failed to load contact messages'')
                (emit (ConsoleError ''Error loading messages:'') s2))\<lparr>loading := False\<rparr>)"

text \<open>The component mounts with the initial state and runs \<open>loadMessages\<close> once.\<close>

definition mount :: "platform \<Rightarrow> (string \<rightharpoonup> string) \<Rightarrow> sysclock \<Rightarrow> inbox" where
  "mount P store ck = loadMessages P (initial_inbox store ck)"

definition markAsRead :: "platform \<Rightarrow> string \<Rightarrow> inbox \<Rightarrow> inbox" where
  "markAsRead P i s =
     (let updatedMessages =
            map (\<lambda>msg. if msg_id msg = i then msg\<lparr>isRead := True\<rparr> else msg) (messages s)
      in setItem storageKey (JSON_stringify P updatedMessages)
           (s\<lparr>messages := updatedMessages\<rparr>))"

definition handleViewMessage :: "platform \<Rightarrow> ContactMessage \<Rightarrow> inbox \<Rightarrow> inbox" where
  "handleViewMessage P m s =
     (let s1 = s\<lparr>selectedMessage := Some m, dialogOpen := True\<rparr>
      in if \<not> isRead m then markAsRead P (msg_id m) s1 else s1)"

definition handleDeleteMessage :: "platform \<Rightarrow> string \<Rightarrow> inbox \<Rightarrow> inbox" where
  "handleDeleteMessage P i s =
     (let updatedMessages = filter (\<lambda>msg. msg_id msg \<noteq> i) (messages s);
          s1 = s\<lparr>messages := updatedMessages\<rparr>;
          s2 = setItem storageKey (JSON_stringify P updatedMessages) s1;
          s3 = s2\<lparr>dialogOpen := False\<rparr>
      in emit (ToastSuccess ''Message deleted successfully'') s3)"

text \<open>
  The two buttons that delete. The one of a table row selects the row's message first;
  the one of the detail dialog passes \<open>selectedMessage?.id || ''\<close>, which is the empty
  string when no message is selected.
\<close>

definition rowDeleteClick :: "platform \<Rightarrow> ContactMessage \<Rightarrow> inbox \<Rightarrow> inbox" where
  "rowDeleteClick P m s = handleDeleteMessage P (msg_id m) (s\<lparr>selectedMessage := Some m\<rparr>)"

definition dialogDeleteClick :: "platform \<Rightarrow> inbox \<Rightarrow> inbox" where
  "dialogDeleteClick P s =
     handleDeleteMessage P (case selectedMessage s of None \<Rightarrow> [] | Some m \<Rightarrow> msg_id m) s"

text \<open>
  The \<open>map\<close> of both reply handlers. Its callback builds \<open>new Date()\<close> for each entry
  that matches, so the clock is read once per match, in list order.
\<close>

fun markReplied ::
  "platform \<Rightarrow> string \<Rightarrow> ContactMessage list \<Rightarrow> sysclock \<Rightarrow> ContactMessage list \<times> sysclock"
where
  "markReplied P i [] ck = ([], ck)"
| "markReplied P i (msg # rest) ck =
     (if msg_id msg = i
      then (let (t, ck1) = new_Date ck;
                (rest', ck2) = markReplied P i rest ck1
            in (msg\<lparr>replied := Some True, replyTimestamp := Some (toISOString P t)\<rparr> # rest', ck2))
      else (let (rest', ck2) = markReplied P i rest ck
            in (msg # rest', ck2)))"

definition replySubject :: string where
  "replySubject = ''Re: Your inquiry at Brista Cafe''"

definition mailtoUrl :: "platform \<Rightarrow> ContactMessage \<Rightarrow> string \<Rightarrow> string" where
  "mailtoUrl P sel draft =
     ''mailto:'' @ email sel @ ''?subject='' @ encodeURIComponent P replySubject
       @ ''&body='' @ encodeURIComponent P draft"

text \<open>
  \<open>handleSendReplyViaEmailClient\<close>. The value \<open>window.open\<close> returns is dropped by the
  source, so nothing after the call depends on what the mail client does.
\<close>

definition handleSendReplyViaEmailClient :: "platform \<Rightarrow> inbox \<Rightarrow> inbox" where
  "handleSendReplyViaEmailClient P s =
     (case selectedMessage s of
        None \<Rightarrow> s
      | Some sel \<Rightarrow>
          (let s1 = emit (WindowOpen (mailtoUrl P sel (replyText s)) ''_blank'') s;
               (updatedMessages, ck) = markReplied P (msg_id sel) (messages s1) (clock s1);
               s2 = s1\<lparr>messages := updatedMessages, clock := ck\<rparr>;
               s3 = setItem storageKey (JSON_stringify P updatedMessages) s2;
               s4 = emit (ToastSuccess ''Email client opened with pre-filled reply'') s3
           in s4\<lparr>replyDialogOpen := False, replyText := []\<rparr>))"

text \<open>
  \<open>handleSendReplyViaSystem\<close> suspends at its \<open>await\<close>. The part before it is
  \<open>handleSendReplyViaSystem_start\<close> (\<open>None\<close> is the early return of the guard). The part
  after it runs on the state \<open>s\<close> of that later moment, but reads \<open>messages\<close> and
  \<open>selectedMessage\<close> from the render in which the button was clicked, the state \<open>c\<close>.
\<close>

definition handleSendReplyViaSystem_start :: "platform \<Rightarrow> inbox \<Rightarrow> inbox option" where
  "handleSendReplyViaSystem_start P s =
     (if selectedMessage s = None \<or> trim P (replyText s) = [] then None
      else Some (s\<lparr>isSendingReply := True\<rparr>))"

definition handleSendReplyViaSystem_resume :: "platform \<Rightarrow> inbox \<Rightarrow> inbox \<Rightarrow> inbox" where
  "handleSendReplyViaSystem_resume P c s =
     (case selectedMessage c of
        None \<Rightarrow> s
      | Some sel \<Rightarrow>
          (let (updatedMessages, ck) = markReplied P (msg_id sel) (messages c) (clock s);
               s1 = s\<lparr>messages := updatedMessages, clock := ck\<rparr>;
               s2 = setItem storageKey (JSON_stringify P updatedMessages) s1;
               s3 = emit (ToastSuccess ''Reply sent successfully'') s2
           in s3\<lparr>replyDialogOpen := False, replyText := [], isSendingReply := False\<rparr>))"

subsection \<open>Rendering\<close>

text \<open>
  \<open>unreadCount\<close> is a constant of the component's body: every render computes it from
  \<open>messages\<close>. The badge \<open>{unreadCount} new\<close> is rendered only when it is positive.
\<close>

definition unreadCount :: "inbox \<Rightarrow> nat" where
  "unreadCount s = length (filter (\<lambda>msg. \<not> isRead msg) (messages s))"

definition unreadBadge :: "inbox \<Rightarrow> nat option" where
  "unreadBadge s = (if unreadCount s > 0 then Some (unreadCount s) else None)"

text \<open>
  The count in the words of the specification: the entries (given by their positions in
  the list) whose read flag is false.
\<close>

definition unread_entries :: "ContactMessage list \<Rightarrow> nat list" where
  "unread_entries ms = filter (\<lambda>k. \<not> isRead (ms ! k)) [0..<length ms]"

section \<open>Bill panel (the \<open>BillDisplay\<close> component)\<close>

text \<open>
  Modelled from the spec: the type \<open>OrderType\<close> is declared in \<open>pages/AdminDashboard\<close>,
  which is not among the sources. The record has the textual fields that the component
  reads (\<open>order_id\<close> is the source's \<open>id\<close>); the line items and the three amounts are
  floating-point numbers and are left out.
\<close>

record OrderType =
  order_id :: string
  customer_name :: "string option"
  room_number :: "string option"
  payment_method :: string
  status :: string
  created_at :: string

text \<open>
  \<open>navigator.share\<close>: the property does not exist, or it exists with a falsy value, or it
  is a function, whose promise is fulfilled (\<open>True\<close>) or rejected (\<open>False\<close>).
\<close>

datatype share_capability = ShareMissing | ShareFalsy | ShareFunction bool

text \<open>
  What the panel finds in its environment: whether \<open>billRef.current\<close> is a mounted node,
  whether each call into a library returns (\<open>True\<close>) or throws (\<open>False\<close>; for
  \<open>canvas.toBlob\<close>, whether the callback receives a blob or \<open>null\<close>), the share
  capability, and \<open>String.prototype.toUpperCase\<close>.
\<close>

record bill_env =
  billRef_current :: bool
  html2canvas_resolves :: bool
  toBlob_gives_blob :: bool
  toDataURL_returns :: bool
  addImage_returns :: bool
  save_returns :: bool
  navigator_share :: share_capability
  toUpperCase :: "string \<Rightarrow> string"

text \<open>\<open>str.slice(b, e)\<close> for indices that are not negative.\<close>

definition slice :: "nat \<Rightarrow> nat \<Rightarrow> string \<Rightarrow> string" where
  "slice b e str = take (e - b) (drop b str)"

text \<open>The order identifier as the bill shows it: \<open>order.id.slice(0, 8).toUpperCase()\<close>.\<close>

definition orderIdDisplay :: "bill_env \<Rightarrow> OrderType \<Rightarrow> string" where
  "orderIdDisplay E ord = toUpperCase E (slice 0 8 (order_id ord))"

definition pdfFileName :: "OrderType \<Rightarrow> string" where
  "pdfFileName ord = ''cafe-bill-'' @ order_id ord @ ''.pdf''"

definition shareTitle :: "OrderType \<Rightarrow> string" where
  "shareTitle ord = ''Cafe Bill - Order #'' @ order_id ord"

definition shareFileName :: "OrderType \<Rightarrow> string" where
  "shareFileName ord = ''bill-'' @ order_id ord @ ''.png''"

text \<open>
  \<open>downloadPDF\<close>, as the effects it has, in order. Each call of the \<open>try\<close> block that
  throws leads to the \<open>catch\<close> branch; the \<open>finally\<close> branch clears the busy flag.
\<close>

definition downloadPDF_failed :: "effect list" where
  "downloadPDF_failed = [ConsoleError ''Error generating PDF:'', ToastError ''Failed to download PDF'']"

definition downloadPDF :: "bill_env \<Rightarrow> OrderType \<Rightarrow> effect list" where
  "downloadPDF E ord =
     (if \<not> billRef_current E then []
      else SetIsGeneratingBill True #
        (Html2canvas #
          (if \<not> html2canvas_resolves E then downloadPDF_failed
           else CanvasToDataURL #
             (if \<not> toDataURL_returns E then downloadPDF_failed
              else PdfAddImage #
                (if \<not> addImage_returns E then downloadPDF_failed
                 else PdfSave (pdfFileName ord) #
                   (if \<not> save_returns E then downloadPDF_failed
                    else [ToastSuccess ''Bill downloaded as PDF'']))))) @
        [SetIsGeneratingBill False])"

text \<open>
  \<open>shareBill\<close>, as the effects it has, in order: the capture (\<open>html2canvas\<close>, then
  \<open>canvas.toBlob\<close>) comes first, the test of \<open>navigator.share\<close> after it.
\<close>

definition shareBill_failed :: "effect list" where
  "shareBill_failed = [ConsoleError ''Error sharing bill:'', ToastError ''Failed to share bill'']"

definition shareBill :: "bill_env \<Rightarrow> OrderType \<Rightarrow> effect list" where
  "shareBill E ord =
     (if \<not> billRef_current E then []
      else Html2canvas #
        (if \<not> html2canvas_resolves E then shareBill_failed
         else CanvasToBlob #
           (if \<not> toBlob_gives_blob E then shareBill_failed
            else (case navigator_share E of
                    ShareFunction fulfilled \<Rightarrow>
                      NavigatorShare (shareTitle ord) (shareFileName ord) #
                        (if fulfilled then [] else shareBill_failed)
                  | _ \<Rightarrow> [ToastError ''Sharing not supported on this browser'']))))"


section \<open>Concrete inputs\<close>

text \<open>A small platform, two messages and some states, for the worked examples below.\<close>

definition demo_platform :: platform where
  "demo_platform =
     \<lparr>JSON_parse = (\<lambda>t. if t = ''[]'' then Inr [] else Inl SyntaxError),
      JSON_stringify = (\<lambda>ms. concat (map (\<lambda>m. msg_id m @ (if isRead m then ''r'' else ''u'')) ms)),
      encodeURIComponent = (\<lambda>t. concat (map (\<lambda>c. if c = CHR '' '' then ''%20'' else [c]) t)),
      toISOString = (\<lambda>t. replicate t (CHR ''t'')),
      trim = (\<lambda>t. t)\<rparr>"

definition msg1 :: ContactMessage where
  "msg1 = \<lparr>msg_id = ''1'', name = ''Asha'', email = ''asha@example.org'', message = ''Hello'',
           timestamp = ''2024-01-01T10:00:00.000Z'', isRead = False,
           replied = None, replyTimestamp = None\<rparr>"

definition msg2 :: ContactMessage where
  "msg2 = \<lparr>msg_id = ''2'', name = ''Ravi'', email = ''ravi@example.org'', message = ''Hours?'',
           timestamp = ''2024-01-02T09:30:00.000Z'', isRead = True,
           replied = Some True, replyTimestamp = Some ''2024-01-02T11:00:00.000Z''\<rparr>"

definition demo_inbox :: inbox where
  "demo_inbox =
     \<lparr>messages = [msg1, msg2], selectedMessage = Some msg1, dialogOpen = True,
      replyDialogOpen = False, replyText = ''Hi there'', isSendingReply = False, loading = False,
      localStorage = [storageKey \<mapsto> ''1u2r''], clock = (5, [2, 3]), effects = []\<rparr>"

text \<open>The same inbox after another writer has left text in the slot that does not parse.\<close>

definition corrupted_inbox :: inbox where
  "corrupted_inbox = demo_inbox\<lparr>localStorage := [storageKey \<mapsto> ''{oops'']\<rparr>"


definition demo_order :: OrderType where
  "demo_order =
     \<lparr>order_id = ''a1b2c3d4-e5f6'', customer_name = None, room_number = Some ''204'',
      payment_method = ''cash'', status = ''completed'', created_at = ''2024-01-02T09:30:00.000Z''\<rparr>"

definition demo_order2 :: OrderType where
  "demo_order2 = demo_order\<lparr>order_id := ''a1b2c3d4-0000''\<rparr>"

definition ascii_upper :: "char \<Rightarrow> char" where
  "ascii_upper c =
     (if 97 \<le> (of_char c :: nat) \<and> (of_char c :: nat) \<le> 122 then char_of (of_char c - 32 :: nat) else c)"

text \<open>A browser without \<open>navigator.share\<close> in which every library call succeeds.\<close>

definition no_share_env :: bill_env where
  "no_share_env =
     \<lparr>billRef_current = True, html2canvas_resolves = True, toBlob_gives_blob = True,
      toDataURL_returns = True, addImage_returns = True, save_returns = True,
      navigator_share = ShareMissing, toUpperCase = map ascii_upper\<rparr>"


definition share_env :: bill_env where
  "share_env = no_share_env\<lparr>navigator_share := ShareFunction True\<rparr>"

section \<open>Auxiliary facts\<close>

lemma emit_simps:
  "messages (emit e s) = messages s"
  "selectedMessage (emit e s) = selectedMessage s"
  "dialogOpen (emit e s) = dialogOpen s"
  "replyDialogOpen (emit e s) = replyDialogOpen s"
  "replyText (emit e s) = replyText s"
  "isSendingReply (emit e s) = isSendingReply s"
  "loading (emit e s) = loading s"
  "localStorage (emit e s) = localStorage s"
  "clock (emit e s) = clock s"
  "effects (emit e s) = effects s @ [e]"
  by (simp_all add: emit_def)

lemma setItem_simps:
  "messages (setItem k v s) = messages s"
  "selectedMessage (setItem k v s) = selectedMessage s"
  "dialogOpen (setItem k v s) = dialogOpen s"
  "replyDialogOpen (setItem k v s) = replyDialogOpen s"
  "replyText (setItem k v s) = replyText s"
  "isSendingReply (setItem k v s) = isSendingReply s"
  "loading (setItem k v s) = loading s"
  "localStorage (setItem k v s) = (localStorage s)(k \<mapsto> v)"
  "clock (setItem k v s) = clock s"
  "effects (setItem k v s) = effects s @ [SetItem k v]"
  by (simp_all add: setItem_def emit_def)

lemma filter_by_position:
  "filter Q xs = map (\<lambda>k. xs ! k) (filter (\<lambda>k. Q (xs ! k)) [0..<length xs])"
proof -
  have "filter Q (map (\<lambda>k. xs ! k) [0..<length xs]) =
        map (\<lambda>k. xs ! k) (filter (\<lambda>k. Q (xs ! k)) [0..<length xs])"
    by (simp add: filter_map comp_def)
  then show ?thesis by (simp add: map_nth)
qed

lemma unreadCount_unread_entries: "unreadCount s = length (unread_entries (messages s))"
proof -
  have "length (filter (\<lambda>msg. \<not> isRead msg) (messages s)) =
        length (map (\<lambda>k. messages s ! k) (unread_entries (messages s)))"
    unfolding unread_entries_def by (subst filter_by_position) (rule refl)
  then show ?thesis by (simp add: unreadCount_def)
qed

lemma messages_markAsRead:
  "messages (markAsRead P i s) =
     map (\<lambda>msg. if msg_id msg = i then msg\<lparr>isRead := True\<rparr> else msg) (messages s)"
  by (simp add: markAsRead_def Let_def setItem_simps)

lemma messages_handleDeleteMessage:
  "messages (handleDeleteMessage P i s) = filter (\<lambda>msg. msg_id msg \<noteq> i) (messages s)"
  by (simp add: handleDeleteMessage_def Let_def setItem_simps emit_simps)

lemma unreadCount_markAsRead:
  "unreadCount (markAsRead P i s) =
     length (filter (\<lambda>msg. \<not> isRead msg \<and> msg_id msg \<noteq> i) (messages s))"
  unfolding unreadCount_def messages_markAsRead
  by (induction "messages s" arbitrary: s) (auto simp: filter_map comp_def intro!: arg_cong[where f=length] filter_cong)


lemma unreadCount_handleDeleteMessage:
  "unreadCount (handleDeleteMessage P i s) =
     length (filter (\<lambda>msg. \<not> isRead msg \<and> msg_id msg \<noteq> i) (messages s))"
  unfolding unreadCount_def messages_handleDeleteMessage
  by (simp add: conj_commute)



lemma markReplied_isRead:
  "map isRead (fst (markReplied P i ms ck)) = map isRead ms"
  by (induction ms arbitrary: ck) (auto simp: split_def Let_def)

lemma unread_of_map_isRead:
  "map isRead xs = map isRead ys \<Longrightarrow>
   length (filter (\<lambda>msg. \<not> isRead msg) xs) = length (filter (\<lambda>msg. \<not> isRead msg) ys)"
proof (induction xs arbitrary: ys)
  case Nil
  then show ?case by simp
next
  case (Cons x xs)
  then obtain y ys' where "ys = y # ys'" by (cases ys) auto
  with Cons show ?case by auto
qed

lemma messages_handleSendReplyViaEmailClient:
  "selectedMessage s = Some sel \<Longrightarrow>
   messages (handleSendReplyViaEmailClient P s) = fst (markReplied P (msg_id sel) (messages s) (clock s))"
  by (simp add: handleSendReplyViaEmailClient_def Let_def split_def setItem_simps emit_simps)

lemma unreadCount_handleSendReplyViaEmailClient:
  "unreadCount (handleSendReplyViaEmailClient P s) = unreadCount s"
proof (cases "selectedMessage s")
  case None
  then show ?thesis by (simp add: handleSendReplyViaEmailClient_def)
next
  case (Some sel)
  show ?thesis
    unfolding unreadCount_def messages_handleSendReplyViaEmailClient[OF Some]
    by (rule unread_of_map_isRead) (rule markReplied_isRead)
qed

lemma PdfSave_downloadPDF:
  "PdfSave n \<in> set (downloadPDF E ord) \<Longrightarrow> n = pdfFileName ord"
  by (auto simp: downloadPDF_def downloadPDF_failed_def split: if_splits)

lemma NavigatorShare_shareBill:
  "NavigatorShare t f \<in> set (shareBill E ord) \<Longrightarrow> t = shareTitle ord \<and> f = shareFileName ord"
  by (auto simp: shareBill_def shareBill_failed_def split: if_splits share_capability.splits)

lemma upper_demo: "map ascii_upper ''a1b2c3d4'' = ''A1B2C3D4''"
  by code_simp

section \<open>The unread badge\<close>

text \<open>
  Claim C1. In every state the count that the panel renders is the number of entries of
  \<open>messages\<close> whose read flag is false, and the badge shows that number when it is not
  zero (no badge is rendered for zero). The count is not a state cell: it is computed from
  \<open>messages\<close>, so the same holds of the state that marking read, deleting or either way of
  replying leaves behind.
\<close>

theorem unread_badge_counts_unread_entries:
  "unreadCount s = length (unread_entries (messages s)) \<and>
   unreadBadge s =
     (if length (unread_entries (messages s)) = 0 then None
      else Some (length (unread_entries (messages s)))) \<and>
   unreadCount (markAsRead P i s) = length (unread_entries (messages (markAsRead P i s))) \<and>
   unreadCount (handleDeleteMessage P i s) =
     length (unread_entries (messages (handleDeleteMessage P i s))) \<and>
   unreadCount (handleSendReplyViaEmailClient P s) =
     length (unread_entries (messages (handleSendReplyViaEmailClient P s))) \<and>
   unreadCount (handleSendReplyViaSystem_resume P c s) =
     length (unread_entries (messages (handleSendReplyViaSystem_resume P c s)))"
  by (simp add: unreadCount_unread_entries unreadBadge_def)

text \<open>
  In the example inbox one of two messages is unread; marking it read removes the badge,
  deleting the other message leaves the count at one.
\<close>

theorem unread_badge_counts_unread_entries_witness:
  "unreadCount demo_inbox = 1 \<and> length (unread_entries (messages demo_inbox)) = 1 \<and>
   unreadBadge demo_inbox = Some 1 \<and>
   length (unread_entries (messages (markAsRead demo_platform ''1'' demo_inbox))) = 0 \<and>
   unreadBadge (markAsRead demo_platform ''1'' demo_inbox) = None \<and>
   length (unread_entries (messages (handleDeleteMessage demo_platform ''2'' demo_inbox))) = 1"
proof -
  have a: "unreadCount demo_inbox = 1"
    by (simp add: unreadCount_def demo_inbox_def msg1_def msg2_def)
  have b: "unreadCount (markAsRead demo_platform ''1'' demo_inbox) = 0"
    by (simp add: unreadCount_markAsRead demo_inbox_def msg1_def msg2_def)
  have c: "unreadCount (handleDeleteMessage demo_platform ''2'' demo_inbox) = 1"
    by (simp add: unreadCount_handleDeleteMessage demo_inbox_def msg1_def msg2_def)
  from a b c unread_badge_counts_unread_entries[of demo_inbox demo_platform "''1''" demo_inbox]
    unread_badge_counts_unread_entries[of demo_inbox demo_platform "''2''" demo_inbox]
    unread_badge_counts_unread_entries[of "markAsRead demo_platform ''1'' demo_inbox" demo_platform "''1''" demo_inbox]
  show ?thesis by simp
qed

section \<open>Deleting a message\<close>

text \<open>
  Claim C2. Deleting by an identifier that occurs in the list leaves no entry with that
  identifier, and leaves the entries with other identifiers as they were, in their order.
  With unique identifiers, as the data model has them, exactly one entry goes. The new
  list is what \<open>localStorage\<close> then holds, the detail dialog is closed, and the effects are
  the write followed by the success notification.
\<close>

theorem handleDeleteMessage_removes_entry:
  assumes "i \<in> msg_id ` set (messages s)"
  shows "i \<notin> msg_id ` set (messages (handleDeleteMessage P i s)) \<and>
    filter (\<lambda>m. msg_id m \<noteq> i) (messages (handleDeleteMessage P i s)) =
      filter (\<lambda>m. msg_id m \<noteq> i) (messages s) \<and>
    (distinct (map msg_id (messages s)) \<longrightarrow>
       (\<exists>xs m ys. messages s = xs @ m # ys \<and> msg_id m = i \<and>
          messages (handleDeleteMessage P i s) = xs @ ys)) \<and>
    localStorage (handleDeleteMessage P i s) storageKey =
      Some (JSON_stringify P (messages (handleDeleteMessage P i s))) \<and>
    \<not> dialogOpen (handleDeleteMessage P i s) \<and>
    effects (handleDeleteMessage P i s) =
      effects s @ [SetItem storageKey (JSON_stringify P (messages (handleDeleteMessage P i s))),
                   ToastSuccess ''Message deleted successfully'']"
proof -
  let ?s' = "handleDeleteMessage P i s"
  have m: "messages ?s' = filter (\<lambda>m. msg_id m \<noteq> i) (messages s)"
    by (rule messages_handleDeleteMessage)
  have 1: "i \<notin> msg_id ` set (messages ?s')" unfolding m by auto
  have 2: "filter (\<lambda>m. msg_id m \<noteq> i) (messages ?s') = filter (\<lambda>m. msg_id m \<noteq> i) (messages s)"
    unfolding m by simp
  have 3: "distinct (map msg_id (messages s)) \<longrightarrow>
       (\<exists>xs m ys. messages s = xs @ m # ys \<and> msg_id m = i \<and> messages ?s' = xs @ ys)"
  proof
    assume d: "distinct (map msg_id (messages s))"
    from assms obtain m0 where "m0 \<in> set (messages s)" "msg_id m0 = i" by auto
    then obtain xs ys where sp: "messages s = xs @ m0 # ys" by (auto dest: split_list)
    from d sp \<open>msg_id m0 = i\<close> have "i \<notin> msg_id ` set xs" "i \<notin> msg_id ` set ys" by auto
    then have "filter (\<lambda>m. msg_id m \<noteq> i) xs = xs" "filter (\<lambda>m. msg_id m \<noteq> i) ys = ys"
      by (auto simp: filter_id_conv)
    with sp \<open>msg_id m0 = i\<close> have "messages ?s' = xs @ ys" unfolding m by simp
    with sp \<open>msg_id m0 = i\<close> show "\<exists>xs m ys. messages s = xs @ m # ys \<and> msg_id m = i \<and> messages ?s' = xs @ ys"
      by blast
  qed
  have 4: "localStorage ?s' storageKey = Some (JSON_stringify P (messages ?s'))"
    by (simp add: handleDeleteMessage_def Let_def setItem_simps emit_simps)
  have 5: "\<not> dialogOpen ?s'"
    by (simp add: handleDeleteMessage_def Let_def setItem_simps emit_simps)
  have 6: "effects ?s' = effects s @ [SetItem storageKey (JSON_stringify P (messages ?s')),
                   ToastSuccess ''Message deleted successfully'']"
    by (simp add: handleDeleteMessage_def Let_def setItem_simps emit_simps)
  from 1 2 3 4 5 6 show ?thesis by blast
qed

text \<open>Deleting message 1 of the example inbox leaves message 2 alone, in memory and in storage.\<close>

theorem handleDeleteMessage_removes_entry_witness:
  "''1'' \<in> msg_id ` set (messages demo_inbox) \<and>
   distinct (map msg_id (messages demo_inbox)) \<and>
   messages (handleDeleteMessage demo_platform ''1'' demo_inbox) = [msg2] \<and>
   localStorage (handleDeleteMessage demo_platform ''1'' demo_inbox) storageKey = Some ''2r'' \<and>
   \<not> dialogOpen (handleDeleteMessage demo_platform ''1'' demo_inbox) \<and>
   effects (handleDeleteMessage demo_platform ''1'' demo_inbox) =
     [SetItem storageKey ''2r'', ToastSuccess ''Message deleted successfully'']"
proof -
  have h: "''1'' \<in> msg_id ` set (messages demo_inbox)"
    by (simp add: demo_inbox_def msg1_def)
  have d: "distinct (map msg_id (messages demo_inbox))"
    by (simp add: demo_inbox_def msg1_def msg2_def)
  have m: "messages (handleDeleteMessage demo_platform ''1'' demo_inbox) = [msg2]"
    by (simp add: messages_handleDeleteMessage demo_inbox_def msg1_def msg2_def)
  have j: "JSON_stringify demo_platform [msg2] = ''2r''"
    by (simp add: demo_platform_def msg2_def)
  have e: "effects demo_inbox = []" by (simp add: demo_inbox_def)
  from handleDeleteMessage_removes_entry[OF h, of demo_platform] h d m j e
  show ?thesis by simp
qed

text \<open>
  Claim C8. Deleting by an identifier that does not occur in the list (the empty string
  that the dialog's button passes when nothing is selected is one, unless a message has
  it) leaves the list as it is, and still writes the whole list to \<open>localStorage\<close>, closes
  the detail dialog and emits the success notification.
\<close>

theorem handleDeleteMessage_unknown_id:
  assumes "i \<notin> msg_id ` set (messages s)"
  shows "messages (handleDeleteMessage P i s) = messages s \<and>
    localStorage (handleDeleteMessage P i s) =
      (localStorage s)(storageKey \<mapsto> JSON_stringify P (messages s)) \<and>
    \<not> dialogOpen (handleDeleteMessage P i s) \<and>
    effects (handleDeleteMessage P i s) =
      effects s @ [SetItem storageKey (JSON_stringify P (messages s)),
                   ToastSuccess ''Message deleted successfully''] \<and>
    (selectedMessage s = None \<longrightarrow> dialogDeleteClick P s = handleDeleteMessage P [] s)"
proof -
  from assms have f: "filter (\<lambda>msg. msg_id msg \<noteq> i) (messages s) = messages s"
    by (auto simp: filter_id_conv)
  then have m: "messages (handleDeleteMessage P i s) = messages s"
    by (simp add: messages_handleDeleteMessage)
  have ls: "localStorage (handleDeleteMessage P i s) =
      (localStorage s)(storageKey \<mapsto> JSON_stringify P (messages s))"
    by (simp add: handleDeleteMessage_def Let_def setItem_simps emit_simps f)
  have d: "\<not> dialogOpen (handleDeleteMessage P i s)"
    by (simp add: handleDeleteMessage_def Let_def setItem_simps emit_simps)
  have e: "effects (handleDeleteMessage P i s) =
      effects s @ [SetItem storageKey (JSON_stringify P (messages s)),
                   ToastSuccess ''Message deleted successfully'']"
    by (simp add: handleDeleteMessage_def Let_def setItem_simps emit_simps f)
  have c: "selectedMessage s = None \<longrightarrow> dialogDeleteClick P s = handleDeleteMessage P [] s"
    by (simp add: dialogDeleteClick_def)
  from m ls d e c show ?thesis by blast
qed

text \<open>
  With nothing selected, the dialog's Delete button rewrites the two messages of the
  example inbox and reports success.
\<close>

theorem handleDeleteMessage_unknown_id_witness:
  "[] \<notin> msg_id ` set (messages (demo_inbox\<lparr>selectedMessage := None\<rparr>)) \<and>
   messages (dialogDeleteClick demo_platform (demo_inbox\<lparr>selectedMessage := None\<rparr>)) = [msg1, msg2] \<and>
   localStorage (dialogDeleteClick demo_platform (demo_inbox\<lparr>selectedMessage := None\<rparr>)) storageKey =
     Some ''1u2r'' \<and>
   \<not> dialogOpen (dialogDeleteClick demo_platform (demo_inbox\<lparr>selectedMessage := None\<rparr>)) \<and>
   effects (dialogDeleteClick demo_platform (demo_inbox\<lparr>selectedMessage := None\<rparr>)) =
     [SetItem storageKey ''1u2r'', ToastSuccess ''Message deleted successfully'']"
proof -
  let ?s = "demo_inbox\<lparr>selectedMessage := None\<rparr>"
  have h: "[] \<notin> msg_id ` set (messages ?s)"
    by (simp add: demo_inbox_def msg1_def msg2_def)
  have m: "messages ?s = [msg1, msg2]" "effects ?s = []" "selectedMessage ?s = None"
    by (simp_all add: demo_inbox_def)
  have j: "JSON_stringify demo_platform [msg1, msg2] = ''1u2r''"
    by (simp add: demo_platform_def msg1_def msg2_def)
  from handleDeleteMessage_unknown_id[OF h, of demo_platform] h m j show ?thesis by simp
qed

section \<open>Marking a message read\<close>

text \<open>
  Claim C3. Marking read keeps the length of the list; an entry with the identifier
  becomes the same entry with \<open>isRead\<close> true, an entry with another identifier stays as
  it is, and no entry changes any other field (the replied flag and the reply timestamp
  among them). The whole new list is written to \<open>localStorage\<close>, by the one write that is
  the only effect. Viewing a message, which marks it read when it is unread, changes no
  replied flag and no reply timestamp either.
\<close>

theorem markAsRead_frame:
  "length (messages (markAsRead P i s)) = length (messages s) \<and>
   (\<forall>k<length (messages s).
      (msg_id (messages s ! k) = i \<longrightarrow>
         messages (markAsRead P i s) ! k = (messages s ! k)\<lparr>isRead := True\<rparr> \<and>
         isRead (messages (markAsRead P i s) ! k)) \<and>
      (msg_id (messages s ! k) \<noteq> i \<longrightarrow>
         messages (markAsRead P i s) ! k = messages s ! k) \<and>
      msg_id (messages (markAsRead P i s) ! k) = msg_id (messages s ! k) \<and>
      name (messages (markAsRead P i s) ! k) = name (messages s ! k) \<and>
      email (messages (markAsRead P i s) ! k) = email (messages s ! k) \<and>
      message (messages (markAsRead P i s) ! k) = message (messages s ! k) \<and>
      timestamp (messages (markAsRead P i s) ! k) = timestamp (messages s ! k) \<and>
      replied (messages (markAsRead P i s) ! k) = replied (messages s ! k) \<and>
      replyTimestamp (messages (markAsRead P i s) ! k) = replyTimestamp (messages s ! k)) \<and>
   localStorage (markAsRead P i s) = 
     (localStorage s)(storageKey \<mapsto> JSON_stringify P (messages (markAsRead P i s))) \<and>
   effects (markAsRead P i s) =
     effects s @ [SetItem storageKey (JSON_stringify P (messages (markAsRead P i s)))] \<and>
   map replied (messages (handleViewMessage P m s)) = map replied (messages s) \<and>
   map replyTimestamp (messages (handleViewMessage P m s)) = map replyTimestamp (messages s)"
proof -
  have m: "messages (markAsRead P i s) =
     map (\<lambda>msg. if msg_id msg = i then msg\<lparr>isRead := True\<rparr> else msg) (messages s)"
    by (rule messages_markAsRead)
  have 1: "length (messages (markAsRead P i s)) = length (messages s)"
    unfolding m by simp
  have 2: "\<forall>k<length (messages s).
      (msg_id (messages s ! k) = i \<longrightarrow>
         messages (markAsRead P i s) ! k = (messages s ! k)\<lparr>isRead := True\<rparr> \<and>
         isRead (messages (markAsRead P i s) ! k)) \<and>
      (msg_id (messages s ! k) \<noteq> i \<longrightarrow>
         messages (markAsRead P i s) ! k = messages s ! k) \<and>
      msg_id (messages (markAsRead P i s) ! k) = msg_id (messages s ! k) \<and>
      name (messages (markAsRead P i s) ! k) = name (messages s ! k) \<and>
      email (messages (markAsRead P i s) ! k) = email (messages s ! k) \<and>
      message (messages (markAsRead P i s) ! k) = message (messages s ! k) \<and>
      timestamp (messages (markAsRead P i s) ! k) = timestamp (messages s ! k) \<and>
      replied (messages (markAsRead P i s) ! k) = replied (messages s ! k) \<and>
      replyTimestamp (messages (markAsRead P i s) ! k) = replyTimestamp (messages s ! k)"
    unfolding m by simp
  have 3: "localStorage (markAsRead P i s) = 
     (localStorage s)(storageKey \<mapsto> JSON_stringify P (messages (markAsRead P i s)))"
    by (simp add: markAsRead_def Let_def setItem_simps)
  have 4: "effects (markAsRead P i s) =
     effects s @ [SetItem storageKey (JSON_stringify P (messages (markAsRead P i s)))]"
    by (simp add: markAsRead_def Let_def setItem_simps)
  have 5: "map replied (messages (handleViewMessage P m s)) = map replied (messages s)"
    "map replyTimestamp (messages (handleViewMessage P m s)) = map replyTimestamp (messages s)"
    by (simp_all add: handleViewMessage_def Let_def messages_markAsRead comp_def if_distrib cong: if_cong)
  from 1 2 3 4 5 show ?thesis by blast
qed

text \<open>
  In the example inbox, marking message 1 read changes its flag only; message 2 keeps its
  replied flag and reply timestamp when it is marked read.
\<close>

theorem markAsRead_frame_witness:
  "messages (markAsRead demo_platform ''1'' demo_inbox) = [msg1\<lparr>isRead := True\<rparr>, msg2] \<and>
   replied (messages (markAsRead demo_platform ''2'' demo_inbox) ! 1) = Some True \<and>
   replyTimestamp (messages (markAsRead demo_platform ''2'' demo_inbox) ! 1) =
     Some ''2024-01-02T11:00:00.000Z'' \<and>
   localStorage (markAsRead demo_platform ''1'' demo_inbox) storageKey = Some ''1r2r''"
proof -
  have l: "length (messages demo_inbox) = 2" "messages demo_inbox ! 0 = msg1"
     "messages demo_inbox ! 1 = msg2" "msg_id msg1 = ''1''" "msg_id msg2 = ''2''"
    by (simp_all add: demo_inbox_def msg1_def msg2_def)
  have r: "replied msg2 = Some True" "replyTimestamp msg2 = Some ''2024-01-02T11:00:00.000Z''"
    by (simp_all add: msg2_def)
  have j: "JSON_stringify demo_platform [msg1\<lparr>isRead := True\<rparr>, msg2] = ''1r2r''"
    by (simp add: demo_platform_def msg1_def msg2_def)
  note f1 = markAsRead_frame[of demo_platform "''1''" demo_inbox msg1]
  note f2 = markAsRead_frame[of demo_platform "''2''" demo_inbox msg2]
  from f1 l have len: "length (messages (markAsRead demo_platform ''1'' demo_inbox)) = 2" by simp
  from f1 l have e0: "messages (markAsRead demo_platform ''1'' demo_inbox) ! 0 = msg1\<lparr>isRead := True\<rparr>"
    by simp
  from f1 l have e1: "messages (markAsRead demo_platform ''1'' demo_inbox) ! 1 = msg2"
    by simp
  from len e0 e1 have m: "messages (markAsRead demo_platform ''1'' demo_inbox) = [msg1\<lparr>isRead := True\<rparr>, msg2]"
    by (auto simp: list_eq_iff_nth_eq less_Suc_eq numeral_2_eq_2)
  from f2 l r have rp: "replied (messages (markAsRead demo_platform ''2'' demo_inbox) ! 1) = Some True"
    "replyTimestamp (messages (markAsRead demo_platform ''2'' demo_inbox) ! 1) = Some ''2024-01-02T11:00:00.000Z''"
    by simp_all
  from f1 m j have st: "localStorage (markAsRead demo_platform ''1'' demo_inbox) storageKey = Some ''1r2r''"
    by simp
  from m rp st show ?thesis by simp
qed




section \<open>Loading the messages\<close>

text \<open>
  Claim C5, as stated, fails on a Refresh: the \<open>catch\<close> branch of \<open>loadMessages\<close> does
  not touch \<open>messages\<close>. In the example, the inbox holds two messages, the slot holds text
  that does not parse, and the two messages are still there after the load.
\<close>

theorem refresh_keeps_stale_list:
  "localStorage corrupted_inbox storageKey = Some ''{oops'' \<and>
   JSON_parse demo_platform (or_else (localStorage corrupted_inbox storageKey) ''[]'') = Inl SyntaxError \<and>
   messages (loadMessages demo_platform corrupted_inbox) = [msg1, msg2] \<and>
   messages (loadMessages demo_platform corrupted_inbox) \<noteq> []"
  by (simp add: loadMessages_def corrupted_inbox_def demo_inbox_def demo_platform_def
      or_else_def getItem_def emit_def storageKey_def)

text \<open>
  Claim C5, amended. When parsing fails, the load reports the error (on the console and
  as the notification ``Failed to load contact messages''), leaves the in-memory list as
  it was before (so an empty list, as on the first load, stays empty), clears \<open>loading\<close>,
  and does not retry: storage is read once and not written.
\<close>

theorem loadMessages_parse_failure:
  assumes "JSON_parse P (or_else (localStorage s storageKey) ''[]'') = Inl err"
  shows "messages (loadMessages P s) = messages s \<and>
    (messages s = [] \<longrightarrow> messages (loadMessages P s) = []) \<and>
    effects (loadMessages P s) =
      effects s @ [GetItem storageKey, ConsoleError ''Error loading messages:'',
                   ToastError ''Failed to load contact messages''] \<and>
    \<not> loading (loadMessages P s) \<and>
    localStorage (loadMessages P s) = localStorage s"
  using assms by (simp add: loadMessages_def getItem_def emit_def)

text \<open>
  A Refresh over a slot that does not parse keeps the two messages; mounting over the same
  slot gives the empty list and the three effects of the failure.
\<close>

theorem loadMessages_parse_failure_witness:
  "JSON_parse demo_platform (or_else (localStorage corrupted_inbox storageKey) ''[]'') = Inl SyntaxError \<and>
   messages (loadMessages demo_platform corrupted_inbox) = [msg1, msg2] \<and>
   JSON_parse demo_platform (or_else ([storageKey \<mapsto> ''{oops''] storageKey) ''[]'') = Inl SyntaxError \<and>
   messages (mount demo_platform [storageKey \<mapsto> ''{oops''] (0, [])) = [] \<and>
   effects (mount demo_platform [storageKey \<mapsto> ''{oops''] (0, [])) =
     [GetItem storageKey, ConsoleError ''Error loading messages:'',
      ToastError ''Failed to load contact messages'']"
proof -
  have h1: "JSON_parse demo_platform (or_else (localStorage corrupted_inbox storageKey) ''[]'') = Inl SyntaxError"
    by (simp add: corrupted_inbox_def demo_platform_def or_else_def)
  have h2: "JSON_parse demo_platform
      (or_else (localStorage (initial_inbox [storageKey \<mapsto> ''{oops''] (0, [])) storageKey) ''[]'') = Inl SyntaxError"
    by (simp add: initial_inbox_def demo_platform_def or_else_def)
  have h3: "JSON_parse demo_platform (or_else ([storageKey \<mapsto> ''{oops''] storageKey) ''[]'') = Inl SyntaxError"
    by (simp add: demo_platform_def or_else_def)
  have m: "messages corrupted_inbox = [msg1, msg2]"
    by (simp add: corrupted_inbox_def demo_inbox_def)
  have i: "messages (initial_inbox [storageKey \<mapsto> ''{oops''] (0, [])) = []"
    "effects (initial_inbox [storageKey \<mapsto> ''{oops''] (0, [])) = []"
    by (simp_all add: initial_inbox_def)
  from loadMessages_parse_failure[OF h1] loadMessages_parse_failure[OF h2] h1 h3 m i
  show ?thesis by (simp add: mount_def)
qed

text \<open>
  Claim C9. When the slot is absent, \<open>loadMessages\<close> parses the literal text \<open>[]\<close>, which
  \<open>JSON.parse\<close> decodes to the empty list: the list is empty, the only effect is the read
  of the slot (no console error, no notification), \<open>loading\<close> is cleared and the slot
  stays absent.
\<close>

theorem loadMessages_absent_slot:
  assumes "localStorage s storageKey = None" and "JSON_parse P ''[]'' = Inr []"
  shows "messages (loadMessages P s) = [] \<and>
    effects (loadMessages P s) = effects s @ [GetItem storageKey] \<and>
    \<not> loading (loadMessages P s) \<and>
    localStorage (loadMessages P s) storageKey = None"
  using assms by (simp add: loadMessages_def getItem_def emit_def or_else_def)

text \<open>
  Mounting over an empty \<open>localStorage\<close> gives the empty list with the read as the only effect.
\<close>

theorem loadMessages_absent_slot_witness:
  "localStorage (initial_inbox Map.empty (0, [])) storageKey = None \<and>
   JSON_parse demo_platform ''[]'' = Inr [] \<and>
   messages (mount demo_platform Map.empty (0, [])) = [] \<and>
   effects (mount demo_platform Map.empty (0, [])) = [GetItem storageKey] \<and>
   \<not> loading (mount demo_platform Map.empty (0, []))"
proof -
  have h1: "localStorage (initial_inbox Map.empty (0, [])) storageKey = None"
    by (simp add: initial_inbox_def)
  have h2: "JSON_parse demo_platform ''[]'' = Inr []"
    by (simp add: demo_platform_def)
  have e: "effects (initial_inbox Map.empty (0, [])) = []"
    by (simp add: initial_inbox_def)
  from loadMessages_absent_slot[OF h1 h2] h1 h2 e show ?thesis by (simp add: mount_def)
qed

section \<open>Replying through the mail client\<close>



section \<open>Sharing and naming the bill\<close>




text \<open>
  Claim C10. The bill shows the upper-cased first eight characters of the order
  identifier, so two orders that agree on those show the same text. Every file that
  \<open>downloadPDF\<close> saves is named \<open>cafe-bill-\<close> + the whole identifier + \<open>.pdf\<close>, and it
  saves one when the steps before succeed; every share that \<open>shareBill\<close> invokes carries
  the title and the file name \<open>bill-\<close> + the whole identifier + \<open>.png\<close>, and it invokes
  one when the capture succeeds and the capability is there. Both file names determine
  the identifier.
\<close>

theorem order_id_display_and_file_names:
  "orderIdDisplay E ord = toUpperCase E (take 8 (order_id ord)) \<and>
   (take 8 (order_id ord) = take 8 (order_id ord') \<longrightarrow>
      orderIdDisplay E ord = orderIdDisplay E ord') \<and>
   (\<forall>n. PdfSave n \<in> set (downloadPDF E ord) \<longrightarrow> n = ''cafe-bill-'' @ order_id ord @ ''.pdf'') \<and>
   (billRef_current E \<and> html2canvas_resolves E \<and> toDataURL_returns E \<and> addImage_returns E \<longrightarrow>
      PdfSave (''cafe-bill-'' @ order_id ord @ ''.pdf'') \<in> set (downloadPDF E ord)) \<and>
   (\<forall>t f. NavigatorShare t f \<in> set (shareBill E ord) \<longrightarrow>
      t = ''Cafe Bill - Order #'' @ order_id ord \<and> f = ''bill-'' @ order_id ord @ ''.png'') \<and>
   (billRef_current E \<and> html2canvas_resolves E \<and> toBlob_gives_blob E \<and>
    navigator_share E = ShareFunction fulfilled \<longrightarrow>
      NavigatorShare (''Cafe Bill - Order #'' @ order_id ord) (''bill-'' @ order_id ord @ ''.png'')
        \<in> set (shareBill E ord)) \<and>
   (pdfFileName ord = pdfFileName ord' \<longleftrightarrow> order_id ord = order_id ord') \<and>
   (shareFileName ord = shareFileName ord' \<longleftrightarrow> order_id ord = order_id ord')"
proof -
  have 1: "orderIdDisplay E ord = toUpperCase E (take 8 (order_id ord))"
    by (simp add: orderIdDisplay_def slice_def)
  have 2: "take 8 (order_id ord) = take 8 (order_id ord') \<longrightarrow>
      orderIdDisplay E ord = orderIdDisplay E ord'"
    by (simp add: orderIdDisplay_def slice_def)
  have 3: "\<forall>n. PdfSave n \<in> set (downloadPDF E ord) \<longrightarrow> n = ''cafe-bill-'' @ order_id ord @ ''.pdf''"
    using PdfSave_downloadPDF[of _ E ord] by (simp add: pdfFileName_def)
  have 4: "billRef_current E \<and> html2canvas_resolves E \<and> toDataURL_returns E \<and> addImage_returns E \<longrightarrow>
      PdfSave (''cafe-bill-'' @ order_id ord @ ''.pdf'') \<in> set (downloadPDF E ord)"
    by (simp add: downloadPDF_def pdfFileName_def)
  have 5: "\<forall>t f. NavigatorShare t f \<in> set (shareBill E ord) \<longrightarrow>
      t = ''Cafe Bill - Order #'' @ order_id ord \<and> f = ''bill-'' @ order_id ord @ ''.png''"
    using NavigatorShare_shareBill[of _ _ E ord] by (simp add: shareTitle_def shareFileName_def)
  have 6: "billRef_current E \<and> html2canvas_resolves E \<and> toBlob_gives_blob E \<and>
    navigator_share E = ShareFunction fulfilled \<longrightarrow>
      NavigatorShare (''Cafe Bill - Order #'' @ order_id ord) (''bill-'' @ order_id ord @ ''.png'')
        \<in> set (shareBill E ord)"
    by (simp add: shareBill_def shareTitle_def shareFileName_def)
  have 7: "pdfFileName ord = pdfFileName ord' \<longleftrightarrow> order_id ord = order_id ord'"
    by (simp add: pdfFileName_def)
  have 8: "shareFileName ord = shareFileName ord' \<longleftrightarrow> order_id ord = order_id ord'"
    by (simp add: shareFileName_def)
  from 1 2 3 4 5 6 7 8 show ?thesis by blast
qed

text \<open>
  Two orders whose identifiers share their first eight characters show the same text on
  the bill and get different file names.
\<close>

theorem order_id_display_and_file_names_witness:
  "orderIdDisplay share_env demo_order = ''A1B2C3D4'' \<and>
   orderIdDisplay share_env demo_order2 = ''A1B2C3D4'' \<and>
   PdfSave ''cafe-bill-a1b2c3d4-e5f6.pdf'' \<in> set (downloadPDF share_env demo_order) \<and>
   NavigatorShare ''Cafe Bill - Order #a1b2c3d4-e5f6'' ''bill-a1b2c3d4-e5f6.png''
     \<in> set (shareBill share_env demo_order) \<and>
   pdfFileName demo_order \<noteq> pdfFileName demo_order2 \<and>
   shareFileName demo_order \<noteq> shareFileName demo_order2"
proof -
  have e: "billRef_current share_env" "html2canvas_resolves share_env" "toDataURL_returns share_env"
    "addImage_returns share_env" "toBlob_gives_blob share_env"
    "navigator_share share_env = ShareFunction True" "toUpperCase share_env = map ascii_upper"
    by (simp_all add: share_env_def no_share_env_def)
  have o: "order_id demo_order = ''a1b2c3d4-e5f6''" "order_id demo_order2 = ''a1b2c3d4-0000''"
    by (simp_all add: demo_order2_def demo_order_def)
  from order_id_display_and_file_names[of share_env demo_order demo_order2 True]
    order_id_display_and_file_names[of share_env demo_order2 demo_order True] e o upper_demo
  show ?thesis by simp
qed

end
